theory Spec2Isabelle
  imports Main "HOL-Library.Word" "HOL-Library.AList"
begin

section \<open>The supervisor and its peer heartbeat (package server)\<close>

text \<open>
  Go's \<open>time.Duration\<close> is an \<open>int64\<close> count of nanoseconds and \<open>time.Second\<close> is
  the constant \<open>1000000000\<close>; arithmetic on it wraps around at 64 bits.
\<close>

type_synonym duration = "64 word"

definition Second :: duration where
  "Second = 1000000000"

text \<open>The fields of \<open>config.Config\<close> that the supervisor code below reads or writes.\<close>

record Config =
  MonitoringTicker :: "64 word"
  LogHeartbeat :: bool
  Arbitration :: bool
  ArbitrationPeerHosts :: string
  ArbitrationSasUniqueId :: int
  ArbitrationSasSecret :: string

text \<open>
  The fields of \<open>cluster.Cluster\<close> that \<open>Heartbeat\<close> touches, and \<open>master\<close>, the
  address of the primary the cluster currently sees, which \<open>Heartbeat\<close> never reads.
\<close>

record Cluster =
  Name :: string
  master :: string
  IsSplitBrain :: bool

text \<open>
  \<open>type Heartbeat struct\<close>: the payload of the heartbeat endpoint. The field names carry
  the prefix \<open>hb_\<close> because \<open>UUID\<close> and \<open>Status\<close> are fields of the supervisor too.
\<close>

record Heartbeat =
  hb_UUID :: string
  hb_Secret :: string
  hb_Cluster :: string
  hb_Master :: string
  hb_UID :: int
  hb_Status :: string
  hb_Hosts :: int
  hb_Failed :: int

definition ConstMonitorActif :: string where
  "ConstMonitorActif = ''A''"

definition ConstMonitorStandby :: string where
  "ConstMonitorStandby = ''S''"

text \<open>
  \<open>type ReplicationManager struct\<close>, restricted to the fields used by the heartbeat code.
  \<open>Clusters\<close> is the Go map from cluster name to cluster.
\<close>

record ReplicationManager =
  Conf :: Config
  SplitBrain :: bool
  Status :: string
  UUID :: string
  Clusters :: "string \<rightharpoonup> Cluster"

subsection \<open>The HTTP exchange with a peer\<close>

text \<open>
  The four places where the peer call can fail, in the order of the source:
  \<open>http.NewRequest\<close>, \<open>client.Do\<close>, \<open>ioutil.ReadAll\<close> and \<open>json.Unmarshal\<close>; then the
  error of \<open>Encode\<close> in the served heartbeat and the error of a proxy driver's
  \<open>Refresh\<close>.
\<close>

datatype error = NewRequestError | TransportError | ReadError | UnmarshalError
  | EncodeError | RefreshError

record http_client =
  Timeout :: duration

record http_request =
  Method :: string
  URL :: string

text \<open>A response carries a body whose reading either fails or yields the bytes.\<close>

datatype http_response = Response "error + string"

text \<open>
  The world outside the process: which URLs \<open>http.NewRequest\<close> accepts, what
  \<open>client.Do\<close> returns for a client and a request, and what \<open>json.Unmarshal\<close> makes of
  a body.
\<close>

record http_env =
  url_ok :: "string \<Rightarrow> bool"
  client_Do :: "http_client \<Rightarrow> http_request \<Rightarrow> error + http_response"
  json_Unmarshal :: "string \<Rightarrow> error + Heartbeat"

definition http_NewRequest :: "http_env \<Rightarrow> string \<Rightarrow> string \<Rightarrow> error + http_request" where
  "http_NewRequest env method url =
     (if url_ok env url then Inr \<lparr>Method = method, URL = url\<rparr> else Inl NewRequestError)"

fun ioutil_ReadAll :: "http_response \<Rightarrow> error + string" where
  "ioutil_ReadAll (Response b) = b"

text \<open>Every \<open>client.Do\<close> that is issued is recorded, client and request, in a trace.\<close>

type_synonym http_trace = "(http_client \<times> http_request) list"

definition heartbeat_timeout :: "Config \<Rightarrow> duration" where
  "heartbeat_timeout conf = MonitoringTicker conf * Second * 4"


definition heartbeat_url :: "string \<Rightarrow> string" where
  "heartbeat_url peer = ''http://'' @ peer @ ''/api/heartbeat''"

text \<open>
  \<open>HeartbeatPeerSplitBrain(peer, bcksplitbrain)\<close>. The log calls write nothing to the
  state and are left out; \<open>bcksplitbrain\<close> only guards log calls.
\<close>

definition HeartbeatPeerSplitBrain ::
  "http_env \<Rightarrow> ReplicationManager \<Rightarrow> string \<Rightarrow> bool \<Rightarrow> bool \<times> http_trace" where
  "HeartbeatPeerSplitBrain env repman peer bcksplitbrain =
     (let timeout = heartbeat_timeout (Conf repman);
          url = heartbeat_url peer;
          client = \<lparr>Timeout = timeout\<rparr>
      in case http_NewRequest env ''GET'' url of
           Inl err \<Rightarrow> (True, [])
         | Inr req \<Rightarrow>
             (case client_Do env client req of
                Inl err \<Rightarrow> (True, [(client, req)])
              | Inr resp \<Rightarrow>
                  (case ioutil_ReadAll resp of
                     Inl err \<Rightarrow> (True, [(client, req)])
                   | Inr monjson \<Rightarrow>
                       (case json_Unmarshal env monjson of
                          Inl err \<Rightarrow> (True, [(client, req)])
                        | Inr h \<Rightarrow> (False, [(client, req)])))))"

subsection \<open>The heartbeat tick\<close>

text \<open>\<open>strings.Split(s, sep)\<close> for a separator of one character.\<close>

fun strings_Split :: "string \<Rightarrow> char \<Rightarrow> string list" where
  "strings_Split [] sep = [[]]"
| "strings_Split (c # cs) sep =
     (if c = sep then [] # strings_Split cs sep
      else (case strings_Split cs sep of
              [] \<Rightarrow> [[c]]
            | w # ws \<Rightarrow> (c # w) # ws))"

text \<open>
  The loop over \<open>peerList\<close>: each peer's result overwrites \<open>repman.SplitBrain\<close>. The mutex
  taken around the assignment has no effect in a sequential run.
\<close>

fun peer_loop ::
  "http_env \<Rightarrow> bool \<Rightarrow> string list \<Rightarrow> ReplicationManager \<times> http_trace
     \<Rightarrow> ReplicationManager \<times> http_trace" where
  "peer_loop env bcksplitbrain [] st = st"
| "peer_loop env bcksplitbrain (peer # peers) (repman, tr) =
     (case HeartbeatPeerSplitBrain env repman peer bcksplitbrain of
        (sb, calls) \<Rightarrow> peer_loop env bcksplitbrain peers (repman\<lparr>SplitBrain := sb\<rparr>, tr @ calls))"

text \<open>The loop over \<open>repman.Clusters\<close>: every cluster receives the supervisor's flag.\<close>

definition propagate_SplitBrain :: "ReplicationManager \<Rightarrow> ReplicationManager" where
  "propagate_SplitBrain repman =
     repman\<lparr>Clusters :=
       (\<lambda>k. map_option (\<lambda>cl. cl\<lparr>IsSplitBrain := SplitBrain repman\<rparr>) (Clusters repman k))\<rparr>"

text \<open>
  \<open>Heartbeat()\<close>. \<open>cfgGroup\<close> is the package-level variable of that name. The result is the
  supervisor after the call and the trace of the HTTP calls that were issued.
\<close>

definition Heartbeat ::
  "http_env \<Rightarrow> string \<Rightarrow> ReplicationManager \<Rightarrow> ReplicationManager \<times> http_trace" where
  "Heartbeat env cfgGroup repman =
     (if cfgGroup = ''arbitrator'' then (repman, [])
      else if ArbitrationPeerHosts (Conf repman) \<noteq> [] then
        (let peerList = strings_Split (ArbitrationPeerHosts (Conf repman)) (CHR '','');
             bcksplitbrain = SplitBrain repman
         in case peer_loop env bcksplitbrain peerList (repman, []) of
              (repman', tr) \<Rightarrow> (propagate_SplitBrain repman', tr))
      else (repman\<lparr>Conf := (Conf repman)\<lparr>Arbitration := False\<rparr>\<rparr>, []))"

subsection \<open>Concrete supervisors and peers\<close>

text \<open>
  A supervisor with a two second tick that monitors one cluster \<open>c1\<close> whose primary is
  \<open>db1:3306\<close>, configured with the given peer hosts.
\<close>

definition example_conf :: "string \<Rightarrow> Config" where
  "example_conf hosts =
     \<lparr>MonitoringTicker = 2, LogHeartbeat = False, Arbitration = True,
      ArbitrationPeerHosts = hosts, ArbitrationSasUniqueId = 7,
      ArbitrationSasSecret = ''secret''\<rparr>"

definition example_repman :: "string \<Rightarrow> ReplicationManager" where
  "example_repman hosts =
     \<lparr>Conf = example_conf hosts, SplitBrain = False, Status = ''S'', UUID = ''uuid-1'',
      Clusters = [''c1'' \<mapsto> \<lparr>Name = ''c1'', master = ''db1:3306'', IsSplitBrain = False\<rparr>]\<rparr>"

text \<open>The heartbeat of a peer that reports cluster \<open>c1\<close> up, with the given primary.\<close>

definition peer_heartbeat :: "string \<Rightarrow> Heartbeat" where
  "peer_heartbeat m =
     \<lparr>hb_UUID = ''uuid-2'', hb_Secret = ''secret'', hb_Cluster = ''c1'', hb_Master = m,
      hb_UID = 8, hb_Status = ''A'', hb_Hosts = 3, hb_Failed = 0\<rparr>"

text \<open>Every peer is reachable and its reply decodes to \<open>h\<close>.\<close>

definition env_reply :: "Heartbeat \<Rightarrow> http_env" where
  "env_reply h =
     \<lparr>url_ok = (\<lambda>u. True),
      client_Do = (\<lambda>c r. Inr (Response (Inr ''{}''))),
      json_Unmarshal = (\<lambda>b. Inr h)\<rparr>"

text \<open>One environment for each failure of the peer call.\<close>

definition env_bad_url :: http_env where
  "env_bad_url = (env_reply (peer_heartbeat ''db1:3306''))\<lparr>url_ok := (\<lambda>u. False)\<rparr>"

definition env_down :: http_env where
  "env_down = (env_reply (peer_heartbeat ''db1:3306''))\<lparr>client_Do := (\<lambda>c r. Inl TransportError)\<rparr>"

definition env_broken_body :: http_env where
  "env_broken_body =
     (env_reply (peer_heartbeat ''db1:3306''))\<lparr>client_Do := (\<lambda>c r. Inr (Response (Inl ReadError)))\<rparr>"

definition env_bad_json :: http_env where
  "env_bad_json =
     (env_reply (peer_heartbeat ''db1:3306''))\<lparr>json_Unmarshal := (\<lambda>b. Inl UnmarshalError)\<rparr>"

text \<open>Peer \<open>p1\<close> is down, every other peer replies.\<close>

definition env_p1_down :: http_env where
  "env_p1_down =
     (env_reply (peer_heartbeat ''db1:3306''))
       \<lparr>client_Do := (\<lambda>c r. if URL r = heartbeat_url ''p1'' then Inl TransportError
                             else Inr (Response (Inr ''{}'')))\<rparr>"

section \<open>The event codes of a cluster (package cluster)\<close>

text \<open>
  \<open>var clusterError = map[string]string{...}\<close>: the literal, entry by entry, and the
  lookup in it. The symbol \<open>\<newline>\<close> stands for the line feed that Go writes as an escape.
\<close>

definition clusterError_entries :: "(string \<times> string) list" where
  "clusterError_entries = [
    (''ERR00001'', ''Monitor freeze while running critical section''),
    (''ERR00002'', ''Waiting for a user manual failover''),
    (''ERR00004'', ''Database %s access denied: %s''),
    (''ERR00005'', ''Could not get privileges for user %s@%s: %s''),
    (''ERR00006'', ''User must have REPLICATION CLIENT privilege on %s''),
    (''ERR00007'', ''User must have REPLICATION SLAVE privilege on %s''),
    (''ERR00008'', ''User must have SUPER privilege %s''),
    (''ERR00009'', ''User must have RELOAD privilege %s''),
    (''ERR00010'', ''Could not find a slave in topology''),
    (''ERR00011'', ''Found multiple masters in topology but not explicitely setup''),
    (''ERR00012'', ''Could not find a master in topology''),
    (''ERR00013'', ''Binary log disabled on slave: %s''),
    (''ERR00014'', ''Could not get binlog dump count on server %s: %s''),
    (''ERR00015'', ''Could not get privileges for user %s on server %s: %s''),
    (''ERR00016'', ''Master is unreachable but slaves are replicating''),
    (''ERR00017'', ''Unable to fetch MaxScale monitoring information''),
    (''ERR00018'', ''Could not connect to MaxScale: %s''),
    (''ERR00019'', ''Could not get MaxScale maxadmin server list: %s''),
    (''ERR00020'', ''Could not get MaxScale maxinfo server list: %s''),
    (''ERR00021'', ''Cluster state down''),
    (''ERR00022'', ''Running in passive mode''),
    (''ERR00023'', ''Constraint failed: state %s, conf.Interactive %t cluster.isMaxMasterFailedCountReach %t''),
    (''ERR00024'', ''Constraint failed: isExternalOk %t,isActiveArbitration %t,isBeetwenFailoverTimeTooShort %t ,isMaxClusterFailoverCountReach %t, isOneSlaveHeartbeatIncreasing %t, isMaxscaleSupectRunning %t''),
    (''ERR00025'', ''Could not get MaxScale maxinfo server list: %s''),
    (''ERR00026'', ''First node restarted is a slave, non-interactive mode''),
    (''ERR00027'', ''Number of cluster failovers exceeded''),
    (''ERR00028'', ''Slave %s can still communicate with the master''),
    (''ERR00029'', ''Time between failovers too short''),
    (''ERR00030'', ''Maxscale %s can still communicate with the master''),
    (''ERR00031'', ''External API can still communicate with the master''),
    (''ERR00032'', ''No candidates found in slaves list''),
    (''ERR00033'', ''Skip slave in election %s have no master log file, slave might have failed''),
    (''ERR00034'', ''Skip slave in election %s repl not electable for switchover''),
    (''ERR00035'', ''Skip slave in election %s multi-master and is already the master''),
    (''ERR00036'', ''Skip slave in election %s is relay''),
    (''ERR00037'', ''Skip slave in election %s in ignore list''),
    (''ERR00038'', ''Skip slave in election %s repl not electable for failover''),
    (''ERR00039'', ''Skip slave in election %s repl not electable''),
    (''ERR00040'', ''Skip slave in election %s does not ping or has no binlogs''),
    (''ERR00041'', ''Skip slave in election %s has more than %d seconds of replication delay (%d)''),
    (''ERR00042'', ''Skip slave in election %s SQL Thread is stopped''),
    (''ERR00043'', ''Skip slave in election %s Semisync report unsynced''),
    (''ERR00044'', ''Can't connect to OpenSVC collector %s''),
    (''ERR00045'', ''Found forbidden relay topology, trying to fix''),
    (''ERR00046'', ''Can't fix relay topology: high replication delay''),
    (''ERR00047'', ''Skip slave in election %s - Maintenance mode''),
    (''ERR00048'', ''Broken muti master ring''),
    (''ERR00049'', ''Waiting old master to rejoin in positional mode to rejoin slave''),
    (''ERR00050'', ''Can't connect to proxy %s''),
    (''ERR00051'', ''ProxySQL connection error: %s''),
    (''ERR00052'', ''Could not get stats to HaProxy: %s''),
    (''ERR00053'', ''ProxySQL can't load users (%s)''),
    (''ERR00054'', ''ProxySQL can't add user (%s)''),
    (''ERR00055'', ''Arbitrator unreachable (%s)''),
    (''ERR00056'', ''Master user %s is not defined on replication candidate %s''),
    (''ERR00057'', ''Database duplicate users not allowed in proxysql %s''),
    (''ERR00058'', ''Sphinx connection error: %s''),
    (''ERR00059'', ''Ignored server %s not found in configured server list''),
    (''ERR00060'', ''To many non closed task in scheduler, donor may not work on server %s''),
    (''ERR00061'', ''No user:password credential specified''),
    (''ERR00062'', ''DNS resolution for host %s error %s''),
    (''ERR00063'', ''Extra master in master slave topology rejoin it after split brain''),
    (''ERR00064'', ''Server %s is not a slave of declared master %s, and replication no relay is enable: Pointing to %s''),
    (''ERR00065'', ''No crash found on current master when rejoining slave %s to %s''),
    (''ERR00066'', ''No crash found on current master when rejoining standalone %s to %s''),
    (''ERR00067'', ''Found slave to rejoin %s slave was previously in state %s replication io thread  %s, pointing currently to %s''),
    (''ERR00068'', ''Arbitration looser''),
    (''ERR00069'', ''ProxySQL could not set %s as reader (%s) different state OFFLINE_HARD''),
    (''ERR00070'', ''ProxySQL could not set %s as reader (%s) different state ONLINE''),
    (''ERR00071'', ''ProxySQL could not set discoverd master %s as writer (%s)''),
    (''ERR00072'', ''ProxySQL could not set discoverd slave %s as reader (%s)''),
    (''ERR00073'', ''Could not get events on server %s''),
    (''ERR00074'', ''Prefered server %s not found in configured server list''),
    (''ERR00075'', ''Can't fecth Processlist %s''),
    (''ERR00076'', ''Connections reach 80 pourcent threshold: %s''),
    (''ERR00077'', ''All databases state down''),
    (''ERR00078'', ''Could not resolve IP from connection %s@%s: with hostname %s on server %s''),
    (''ERR00079'', ''Disk %s usage high on %s''),
    (''ERR00080'', ''Connection use old TLS keys on %s''),
    (''ERR00081'', ''Connection use no TLS keys on %s''),
    (''ERR00082'', ''Could not get agents from orchestrator %s''),
    (''ERR00083'', ''Different cluster uuid found on %s:%s %s:%s''),
    (''ERR00084'', ''Cluster have no master when slave %s was started''),
    (''ERR00085'', ''No replica found for routing reads''),
    (''ERR00086'', ''Sharding proxy refresh no database monitor yet initialize''),
    (''ERR00087'', ''Skip slave in election %s IO Thread is stopped with valid leader''),
    (''ERR00088'', ''Authentification error in replication IO thread''),
    (''ERR00089'', ''Authentification error to Vault %s''),
    (''ERR00090'', ''Monitoring save config enable but no encryption key for password, see the keygen command''),
    (''WARN0022'', ''Rejoining standalone server %s to master %s''),
    (''WARN0023'', ''Number of failed master ping has been reached''),
    (''WARN0045'', ''Provision task is in queue''),
    (''WARN0046'', ''Provision task is waiting''),
    (''WARN0047'', ''Entreprise provision of MariaDB Sharding Cluster not yet implemented''),
    (''WARN0048'', ''No semisync settings on slave %s''),
    (''WARN0049'', ''No binlog format ROW on slave %s and flashback activated''),
    (''WARN0050'', ''No Heartbeat <= 1s on slave %s''),
    (''WARN0051'', ''No GTID replication on slave %s''),
    (''WARN0052'', ''No InnoDB durability on slave %s''),
    (''WARN0053'', ''No replication checksum on slave %s''),
    (''WARN0054'', ''No log of replication queries in slow query on slave %s''),
    (''WARN0055'', ''ROW or MIXED binlog format and replicate_annotate_row_events is off on slave %s''),
    (''WARN0056'', ''No compression of binlog on slave %s''),
    (''WARN0057'', ''No log-slave-updates on slave %s''),
    (''WARN0058'', ''No GTID strict mode on slave %s''),
    (''WARN0059'', ''No replication crash-safe settings on slave %s''),
    (''WARN0060'', ''No semisync settings on master %s''),
    (''WARN0061'', ''No binlog format ROW on master %s and flashback activated''),
    (''WARN0062'', ''No Heartbeat <= 1s on master %s''),
    (''WARN0064'', ''No InnoDB durability on master %s''),
    (''WARN0065'', ''No replication checksum on master %s''),
    (''WARN0066'', ''No log of replication queries in slow query on master %s''),
    (''WARN0067'', ''RBR is on and Binlog Annotation is off on master %s''),
    (''WARN0068'', ''No compression of binlog on slave %s''),
    (''WARN0069'', ''No log-slave-updates on master %s''),
    (''WARN0070'', ''No GTID strict mode on master %s''),
    (''WARN0071'', ''No replication crash-safe settings on master %s''),
    (''WARN0072'', ''Running optimize table %s on server %s''),
    (''WARN0073'', ''Running physical backup %s on server %s''),
    (''WARN0074'', ''Reseeding physical backup %s on server %s''),
    (''WARN0075'', ''Reseeding logical backup %s on server %s''),
    (''WARN0076'', ''Flashback physical backup %s on server %s''),
    (''WARN0077'', ''Flashback logical backup %s on server %s''),
    (''WARN0078'', ''Haproxy version to old to get statistics''),
    (''WARN0079'', ''Cluster is split brain''),
    (''WARN0080'', ''Cluster lost majority''),
    (''WARN0081'', ''Cluster arbitrator error in reporting %s''),
    (''WARN0082'', ''Cluster arbitrator error in arbitration %s''),
    (''WARN0083'', ''Arbitration winner''),
    (''WARN0084'', ''Variable diff:\<newline> %s''),
    (''WARN0085'', ''Server %s in capture mode''),
    (''WARN0086'', ''Checksum table waiting replication sync on slave %s''),
    (''WARN0087'', ''Cluster same server_id %s %s''),
    (''WARN0088'', ''High number of slow queries %s ''),
    (''WARN0089'', ''ShardProxy Could not fetch master schemas %s''),
    (''WARN0090'', ''Cluster arbitrator unreachable %s''),
    (''WARN0091'', ''Server as errant transaction %s''),
    (''WARN0092'', ''ProxySQL could not load query rules from runtime (%s)''),
    (''WARN0093'', ''Restic fetch repo issue: %s\<newline>%s\<newline>%s''),
    (''WARN0094'', ''Restic purge repo issue: %s\<newline>%s\<newline>%s''),
    (''WARN0095'', ''Restic init repo issue: %s\<newline>%s\<newline>%s''),
    (''WARN0096'', ''Restart database server via job request %s''),
    (''WARN0097'', ''Stop database server via job request %s''),
    (''WARN0098'', ''ProxySQL could not load global variables from runtime (%s)''),
    (''WARN0099'', ''MariaDB version as replication issue https://jira.mariadb.org/browse/MDEV-20821''),
    (''WARN0100'', ''No space left on device pn %s''),
    (''WARN0101'', ''Cluster does not have backup''),
    (''WARN0102'', ''The config file must be merge because an immutable parameter has been changed. Use the config-merge command to save your changes.''),
    (''WARN0103'', ''Enforce replication mode idempotent but  strict on server %s''),
    (''WARN0104'', ''Enforce replication mode strict but idempotent on server %s'')]"

definition clusterError :: "string \<rightharpoonup> string" where
  "clusterError = map_of clusterError_entries"

section \<open>The served heartbeat (api.go) and the start of the supervisor\<close>

text \<open>
  The start of \<open>Run\<close>: the cluster map is made, the UUID drawn, and \<open>Status\<close> set from the
  arbitration flag, before the API server is launched. No other statement of the sources
  assigns \<open>repman.Status\<close>.
\<close>

definition Run_start :: "string \<Rightarrow> ReplicationManager \<Rightarrow> ReplicationManager" where
  "Run_start uuid repman =
     repman\<lparr>Clusters := Map.empty,
            UUID := uuid,
            Status := (if Arbitration (Conf repman) then ConstMonitorStandby
                       else ConstMonitorActif),
            SplitBrain := False\<rparr>"

text \<open>One turn of the loop at the end of \<open>Run\<close>.\<close>

definition Run_tick :: "http_env \<Rightarrow> string \<Rightarrow> ReplicationManager \<Rightarrow> ReplicationManager" where
  "Run_tick env cfgGroup repman =
     (if Arbitration (Conf repman) then fst (Heartbeat env cfgGroup repman) else repman)"

text \<open>
  The supervisors that can be serving requests: \<open>Run\<close> has started, and since then the loop
  has turned and \<open>StartCluster\<close> has entered clusters into the map, any number of times.
\<close>

inductive serving :: "string \<Rightarrow> ReplicationManager \<Rightarrow> bool" for cfgGroup :: string where
  started: "serving cfgGroup (Run_start uuid repman)"
| ticked: "serving cfgGroup repman \<Longrightarrow> serving cfgGroup (Run_tick env cfgGroup repman)"
| cluster_started:
    "serving cfgGroup repman \<Longrightarrow>
       serving cfgGroup (repman\<lparr>Clusters := (Clusters repman)(name \<mapsto> cl)\<rparr>)"

datatype json_value = JString string | JNumber int

text \<open>
  \<open>encoding/json\<close> on a \<open>Heartbeat\<close>: one member for each field, in the order of the
  struct, named by the field's \<open>json\<close> tag; no tag has \<open>omitempty\<close>.
\<close>

definition json_Marshal_Heartbeat :: "Heartbeat \<Rightarrow> (string \<times> json_value) list" where
  "json_Marshal_Heartbeat h =
     [(''uuid'', JString (hb_UUID h)),
      (''secret'', JString (hb_Secret h)),
      (''cluster'', JString (hb_Cluster h)),
      (''master'', JString (hb_Master h)),
      (''id'', JNumber (hb_UID h)),
      (''status'', JString (hb_Status h)),
      (''hosts'', JNumber (hb_Hosts h)),
      (''failed'', JNumber (hb_Failed h))]"

record http_reply =
  ContentType :: string
  Payload :: "(string \<times> json_value) list"

text \<open>The zero value of \<open>var send Heartbeat\<close>.\<close>

definition zero_Heartbeat :: Heartbeat where
  "zero_Heartbeat =
     \<lparr>hb_UUID = [], hb_Secret = [], hb_Cluster = [], hb_Master = [], hb_UID = 0,
      hb_Status = [], hb_Hosts = 0, hb_Failed = 0\<rparr>"

text \<open>
  \<open>handlerMuxMonitorHeartbeat\<close>. \<open>Encode\<close> fails only when the response writer does
  (\<open>writable\<close> false); the handler then panics and no reply is delivered.
\<close>

definition handlerMuxMonitorHeartbeat :: "bool \<Rightarrow> ReplicationManager \<Rightarrow> error + http_reply" where
  "handlerMuxMonitorHeartbeat writable repman =
     (let send = zero_Heartbeat;
          send = send\<lparr>hb_UUID := UUID repman\<rparr>;
          send = send\<lparr>hb_UID := ArbitrationSasUniqueId (Conf repman)\<rparr>;
          send = send\<lparr>hb_Secret := ArbitrationSasSecret (Conf repman)\<rparr>;
          send = send\<lparr>hb_Status := Status repman\<rparr>
      in if writable
         then Inr \<lparr>ContentType = ''application/json; charset=UTF-8'',
                   Payload = json_Marshal_Heartbeat send\<rparr>
         else Inl EncodeError)"

section \<open>The proxies of a cluster (package cluster)\<close>

text \<open>
  Modelled from the spec: the constants \<open>stateProxyRunning\<close>, \<open>stateSuspect\<close> and
  \<open>stateFailed\<close> are declared in a file of package cluster that is not among the sources;
  section 3 of the specification names the proxy states running, suspect and failed.
\<close>

definition stateProxyRunning :: string where
  "stateProxyRunning = ''running''"

definition stateSuspect :: string where
  "stateSuspect = ''suspect''"

definition stateFailed :: string where
  "stateFailed = ''failed''"

text \<open>
  \<open>type Proxy struct\<close>, restricted to the fields that \<open>refreshProxies\<close> reads or writes
  through its accessors, and the three cookies it tests and deletes. \<open>FailCount\<close> is a Go
  \<open>int\<close>; the code only adds one to it, so it is an \<open>int\<close> here.
\<close>

record Proxy =
  Id :: string
  State :: string
  PrevState :: string
  FailCount :: int
  WaitStartCookie :: bool
  WaitStopCookie :: bool
  RestartCookie :: bool

text \<open>The fields of \<open>cluster.Conf\<close> that \<open>refreshProxies\<close> reads.\<close>

record ClusterConf =
  MaxFail :: int
  GraphiteMetrics :: bool

text \<open>
  The body of the loop of \<open>refreshProxies\<close> for one proxy. \<open>Refresh\<close> is the driver's
  method: it returns an error or none. In the error branch \<open>fc\<close> is a local variable; the
  source has no \<open>SetFailCount(fc)\<close>. \<open>LogPrintf\<close> and \<open>SendStats\<close> write nothing to the
  proxy.
\<close>

definition refreshProxy :: "(Proxy \<Rightarrow> error option) \<Rightarrow> ClusterConf \<Rightarrow> Proxy \<Rightarrow> Proxy" where
  "refreshProxy Refresh conf pr =
     (let pr1 =
        (case Refresh pr of
           None \<Rightarrow>
             (let p = pr\<lparr>FailCount := 0\<rparr>;
                  p = p\<lparr>State := stateProxyRunning\<rparr>
              in if WaitStartCookie p then p\<lparr>WaitStartCookie := False\<rparr> else p)
         | Some err \<Rightarrow>
             (let fc = FailCount pr + 1
              in if fc \<ge> MaxFail conf
                 then pr\<lparr>State := stateFailed, WaitStopCookie := False, RestartCookie := False\<rparr>
                 else pr\<lparr>State := stateSuspect\<rparr>))
      in if PrevState pr1 \<noteq> State pr1 then pr1\<lparr>PrevState := State pr1\<rparr> else pr1)"

text \<open>\<open>refreshProxies\<close>: the loop over \<open>cluster.Proxies\<close>.\<close>

definition refreshProxies :: "(Proxy \<Rightarrow> error option) \<Rightarrow> ClusterConf \<Rightarrow> Proxy list \<Rightarrow> Proxy list" where
  "refreshProxies Refresh conf proxies = map (refreshProxy Refresh conf) proxies"

text \<open>
  Successive passes of the monitor loop, each with the outcomes its driver calls have.
\<close>

fun refresh_passes ::
  "(Proxy \<Rightarrow> error option) list \<Rightarrow> ClusterConf \<Rightarrow> Proxy list \<Rightarrow> Proxy list" where
  "refresh_passes [] conf proxies = proxies"
| "refresh_passes (Refresh # rest) conf proxies =
     refresh_passes rest conf (refreshProxies Refresh conf proxies)"

text \<open>A running proxy, and a driver whose \<open>Refresh\<close> always fails.\<close>

definition example_proxy :: Proxy where
  "example_proxy =
     \<lparr>Id = ''px1'', State = stateProxyRunning, PrevState = stateProxyRunning, FailCount = 0,
      WaitStartCookie = False, WaitStopCookie = False, RestartCookie = False\<rparr>"

definition Refresh_fails :: "Proxy \<Rightarrow> error option" where
  "Refresh_fails pr = Some RefreshError"

definition Refresh_succeeds :: "Proxy \<Rightarrow> error option" where
  "Refresh_succeeds pr = None"

section \<open>The configuration loader (package server)\<close>

subsection \<open>The configuration library\<close>

text \<open>
  The loader reads its configuration through the library viper, which is not part of the
  repository. What the loader uses of it is modelled here, after the library's behaviour.
  A configuration value is a scalar of the TOML file; Go's \<open>nil\<close> is \<open>None\<close>.
\<close>

datatype conf_value = VBool bool | VInt int | VString string

text \<open>
  A viper as \<open>Sub\<close> returns it and as the loader changes it: the layer written by
  \<open>Set\<close>, which has precedence, the layer of the configuration section, and the registered
  aliases. Keys are held in lower case, as the library stores them. The environment layer
  that \<open>AutomaticEnv\<close> switches on ranks below the \<open>Set\<close> layer and is left out.
\<close>

record Viper =
  v_override :: "(string \<times> conf_value) list"
  v_config :: "(string \<times> conf_value) list"
  v_aliases :: "(string \<times> string) list"

text \<open>
  \<open>realKey\<close> follows the chain of aliases from a key. \<open>registerAlias\<close> refuses an alias
  that would close a cycle, so a chain meets each alias once; the recursion removes the
  alias it has followed, which makes it total.
\<close>

function realKey :: "(string \<times> string) list \<Rightarrow> string \<Rightarrow> string" where
  "realKey al key =
     (case map_of al key of
        None \<Rightarrow> key
      | Some newkey \<Rightarrow> realKey (AList.delete key al) newkey)"
  by pat_completeness auto
termination
proof (relation "measure (\<lambda>(al, key). length al)")
  show "wf (measure (\<lambda>(al, key). length al))"
    by simp
next
  fix al :: "(string \<times> string) list" and key newkey
  assume "map_of al key = Some newkey"
  then have "(key, newkey) \<in> set al"
    by (rule map_of_SomeD)
  then have "length (AList.delete key al) < length al"
    unfolding AList.delete_eq by (rule length_filter_less) simp
  then show "((AList.delete key al, newkey), (al, key)) \<in> measure (\<lambda>(al, key). length al)"
    by simp
qed

declare realKey.simps [simp del]

text \<open>\<open>find\<close>, behind \<open>Get\<close>: the alias is resolved, then the layers are searched in order.\<close>

definition Get :: "Viper \<Rightarrow> string \<Rightarrow> conf_value option" where
  "Get v key =
     (let k = realKey (v_aliases v) key
      in case map_of (v_override v) k of
           Some val \<Rightarrow> Some val
         | None \<Rightarrow> map_of (v_config v) k)"


text \<open>\<open>AllKeys\<close>: the aliases and the keys of every layer, each once.\<close>

definition AllKeys :: "Viper \<Rightarrow> string list" where
  "AllKeys v = remdups (map fst (v_aliases v) @ map fst (v_override v) @ map fst (v_config v))"

text \<open>
  \<open>registerAlias\<close>: unless the alias is the key, resolves to the key's real key, or is
  registered already, the value a layer holds under the alias moves to the key, and the
  alias is recorded.
\<close>

definition move_alias ::
  "string \<Rightarrow> string \<Rightarrow> (string \<times> conf_value) list \<Rightarrow> (string \<times> conf_value) list" where
  "move_alias alias key m =
     (case map_of m alias of
        Some val \<Rightarrow> AList.update key val (AList.delete alias m)
      | None \<Rightarrow> m)"

definition RegisterAlias :: "Viper \<Rightarrow> string \<times> string \<Rightarrow> Viper" where
  "RegisterAlias v call =
     (case call of (alias, key) \<Rightarrow>
        if alias \<noteq> key \<and> alias \<noteq> realKey (v_aliases v) key
        then (if map_of (v_aliases v) alias = None
              then v\<lparr>v_config := move_alias alias key (v_config v),
                     v_override := move_alias alias key (v_override v),
                     v_aliases := AList.update alias key (v_aliases v)\<rparr>
              else v)
        else v)"

text \<open>
  \<open>Unmarshal\<close> decodes \<open>AllSettings\<close>, the value \<open>Get\<close> finds for each of \<open>AllKeys\<close>,
  into the configuration struct. The struct \<open>config.Config\<close> is declared outside the
  sources: a configuration is seen as the values of its fields, named by their keys, and
  \<open>is_field\<close> tells which keys name a field.
\<close>

type_synonym conf_values = "string \<rightharpoonup> conf_value"

definition Unmarshal :: "(string \<Rightarrow> bool) \<Rightarrow> Viper \<Rightarrow> conf_values \<Rightarrow> conf_values" where
  "Unmarshal is_field v conf =
     foldl (\<lambda>c k. if is_field k then (case Get v k of Some val \<Rightarrow> c(k \<mapsto> val) | None \<Rightarrow> c)
                   else c)
       conf (AllKeys v)"

subsection \<open>The loader\<close>

text \<open>The calls of \<open>initAlias\<close>, alias and key, in the order of the source.\<close>

definition initAlias_calls :: "(string \<times> string) list" where
  "initAlias_calls =
     [(''monitoring-config-rewrite'', ''monitoring-save-config''),
      (''api-user'', ''api-credentials''),
      (''replication-master-connection'', ''replication-source-name''),
      (''logfile'', ''log-file''),
      (''wait-kill'', ''switchover-wait-kill''),
      (''user'', ''db-servers-credential''),
      (''hosts'', ''db-servers-hosts''),
      (''hosts-tls-ca-cert'', ''db-servers-tls-ca-cert''),
      (''hosts-tls-client-key'', ''db-servers-tls-client-key''),
      (''hosts-tls-client-cert'', ''db-servers-tls-client-cert''),
      (''connect-timeout'', ''db-servers-connect-timeout''),
      (''rpluser'', ''replication-credential''),
      (''prefmaster'', ''db-servers-prefered-master''),
      (''ignore-servers'', ''db-servers-ignored-hosts''),
      (''master-connection'', ''replication-master-connection''),
      (''master-connect-retry'', ''replication-master-connection-retry''),
      (''readonly'', ''failover-readonly-state''),
      (''maxscale-host'', ''maxscale-servers''),
      (''mdbshardproxy-hosts'', ''mdbshardproxy-servers''),
      (''multimaster'', ''replication-multi-master''),
      (''multi-tier-slave'', ''replication-multi-tier-slave''),
      (''pre-failover-script'', ''failover-pre-script''),
      (''post-failover-script'', ''failover-post-script''),
      (''rejoin-script'', ''autorejoin-script''),
      (''share-directory'', ''monitoring-sharedir''),
      (''working-directory'', ''monitoring-datadir''),
      (''interactive'', ''failover-mode''),
      (''failcount'', ''failover-falsepositive-ping-counter''),
      (''wait-write-query'', ''switchover-wait-write-query''),
      (''wait-trx'', ''switchover-wait-trx''),
      (''gtidcheck'', ''switchover-at-equal-gtid''),
      (''maxdelay'', ''failover-max-slave-delay''),
      (''maxscale-host'', ''maxscale-servers''),
      (''maxscale-pass'', ''maxscale-password''),
      (''api-credential'', ''api-credentials'')]"

definition initAlias :: "Viper \<Rightarrow> Viper" where
  "initAlias v = foldl RegisterAlias v initAlias_calls"

text \<open>
  \<open>fistRead\<close>, the merged configuration: what \<open>Get\<close> finds in it for a key, and the
  section that \<open>Sub\<close> finds for a name, if there is one. \<open>Sub\<close> returns a new viper
  that holds the section as its configuration layer.
\<close>

record FirstRead =
  fr_Get :: "string \<Rightarrow> conf_value option"
  fr_Sub :: "string \<Rightarrow> (string \<times> conf_value) list option"

definition Sub :: "FirstRead \<Rightarrow> string \<Rightarrow> Viper option" where
  "Sub fistRead name =
     map_option (\<lambda>section. \<lparr>v_override = [], v_config = section, v_aliases = []\<rparr>)
       (fr_Sub fistRead name)"

text \<open>
  What the loader needs to know of the struct \<open>config.Config\<close>, declared outside the
  sources: which keys name a field, and the field \<open>ConfRewrite\<close>.
\<close>

record ConfigType =
  is_field :: "string \<Rightarrow> bool"
  ConfRewrite :: "conf_values \<Rightarrow> bool"









text \<open>
  The default section in \<open>InitConfig\<close>: \<open>cf1 := fistRead.Sub("Default")\<close>, aliases, and
  \<open>cf1.Unmarshal(&conf)\<close>.
\<close>

definition read_default :: "ConfigType \<Rightarrow> FirstRead \<Rightarrow> conf_values \<Rightarrow> conf_values" where
  "read_default ct fistRead conf =
     (case Sub fistRead ''Default'' of
        None \<Rightarrow> conf
      | Some cf1 \<Rightarrow> Unmarshal (is_field ct) (initAlias cf1) conf)"

subsection \<open>A concrete configuration\<close>








section \<open>Properties of the peer heartbeat\<close>

lemma strings_Split_nonempty: "strings_Split s sep \<noteq> []"
  by (induction s) (auto split: list.splits)

lemma HeartbeatPeerSplitBrain_SplitBrain_update:
  "HeartbeatPeerSplitBrain env (repman\<lparr>SplitBrain := sb\<rparr>) peer b =
     HeartbeatPeerSplitBrain env repman peer b"
  by (simp add: HeartbeatPeerSplitBrain_def)

lemma peer_loop_frame:
  "peer_loop env b peers (repman, tr) = (repman', tr') \<Longrightarrow>
     repman' = repman\<lparr>SplitBrain := SplitBrain repman'\<rparr>"
proof (induction peers arbitrary: repman tr)
  case Nil
  then show ?case by simp
next
  case (Cons p ps)
  obtain sb calls where hp: "HeartbeatPeerSplitBrain env repman p b = (sb, calls)"
    by (cases "HeartbeatPeerSplitBrain env repman p b")
  with Cons.prems
  have "peer_loop env b ps (repman\<lparr>SplitBrain := sb\<rparr>, tr @ calls) = (repman', tr')"
    by simp
  from Cons.IH [OF this]
  have "repman' = repman\<lparr>SplitBrain := sb\<rparr>\<lparr>SplitBrain := SplitBrain repman'\<rparr>" .
  then show ?case by simp
qed

lemma peer_loop_last:
  "peers \<noteq> [] \<Longrightarrow>
     SplitBrain (fst (peer_loop env b peers (repman, tr))) =
       fst (HeartbeatPeerSplitBrain env repman (last peers) b)"
proof (induction peers arbitrary: repman tr)
  case Nil
  then show ?case by simp
next
  case (Cons p ps)
  obtain sb calls where hp: "HeartbeatPeerSplitBrain env repman p b = (sb, calls)"
    by (cases "HeartbeatPeerSplitBrain env repman p b")
  show ?case
  proof (cases "ps = []")
    case True
    with hp show ?thesis by simp
  next
    case False
    from Cons.IH [OF False, of "repman\<lparr>SplitBrain := sb\<rparr>" "tr @ calls"] False hp
    show ?thesis
      by (simp add: HeartbeatPeerSplitBrain_SplitBrain_update)
  qed
qed

text \<open>
  What a run of \<open>Heartbeat\<close> that reaches the peer loop leaves behind: the flag of the
  last peer's check, copied into every cluster, and nothing else changed.
\<close>

lemma Heartbeat_peers:
  assumes "cfgGroup \<noteq> ''arbitrator''" and "ArbitrationPeerHosts (Conf repman) \<noteq> []"
  shows "fst (Heartbeat env cfgGroup repman) =
           (let sb = fst (HeartbeatPeerSplitBrain env repman
                      (last (strings_Split (ArbitrationPeerHosts (Conf repman)) (CHR '','')))
                      (SplitBrain repman))
            in repman\<lparr>SplitBrain := sb,
                 Clusters := (\<lambda>k. map_option (\<lambda>cl. cl\<lparr>IsSplitBrain := sb\<rparr>) (Clusters repman k))\<rparr>)"
proof -
  let ?peers = "strings_Split (ArbitrationPeerHosts (Conf repman)) (CHR '','')"
  let ?sb = "fst (HeartbeatPeerSplitBrain env repman (last ?peers) (SplitBrain repman))"
  obtain r tr where loop: "peer_loop env (SplitBrain repman) ?peers (repman, []) = (r, tr)"
    by (cases "peer_loop env (SplitBrain repman) ?peers (repman, [])")
  have "SplitBrain r = ?sb"
    using peer_loop_last [of ?peers env "SplitBrain repman" repman "[]"] loop
    by (simp add: strings_Split_nonempty)
  with peer_loop_frame [OF loop] have "r = repman\<lparr>SplitBrain := ?sb\<rparr>"
    by simp
  with assms(1,2) loop show ?thesis
    by (simp add: Heartbeat_def propagate_SplitBrain_def Let_def)
qed

lemmas example_defs = example_conf_def example_repman_def peer_heartbeat_def env_reply_def
  env_bad_url_def env_down_def env_broken_body_def env_bad_json_def env_p1_down_def

lemmas heartbeat_defs = HeartbeatPeerSplitBrain_def http_NewRequest_def Heartbeat_def
  propagate_SplitBrain_def heartbeat_url_def

text \<open>
  C1, as the code has it. When the peer is reachable and its reply decodes to a heartbeat
  \<open>h\<close>, the peer's check returns false whatever cluster and primary \<open>h\<close> reports: the
  reply is not compared with anything, so that peer's check does not set the split-brain
  flag.
\<close>

theorem HeartbeatPeerSplitBrain_reply_ignored:
  assumes "url_ok env (heartbeat_url peer)"
    and "client_Do env \<lparr>Timeout = heartbeat_timeout (Conf repman)\<rparr>
           \<lparr>Method = ''GET'', URL = heartbeat_url peer\<rparr> = Inr resp"
    and "ioutil_ReadAll resp = Inr monjson"
    and "json_Unmarshal env monjson = Inr h"
  shows "fst (HeartbeatPeerSplitBrain env repman peer bcksplitbrain) = False"
  using assms by (simp add: HeartbeatPeerSplitBrain_def http_NewRequest_def)

theorem HeartbeatPeerSplitBrain_reply_ignored_witness:
  "url_ok (env_reply (peer_heartbeat ''db2:3306'')) (heartbeat_url ''p1'') \<and>
   json_Unmarshal (env_reply (peer_heartbeat ''db2:3306'')) ''{}''
     = Inr (peer_heartbeat ''db2:3306'') \<and>
   fst (HeartbeatPeerSplitBrain (env_reply (peer_heartbeat ''db2:3306'')) (example_repman ''p1'')
     ''p1'' False) = False"
  using HeartbeatPeerSplitBrain_reply_ignored
    [of "env_reply (peer_heartbeat ''db2:3306'')" "''p1''" "example_repman ''p1''"
        "Response (Inr ''{}'')" "''{}''" "peer_heartbeat ''db2:3306''" False]
  by (simp add: example_defs)

text \<open>
  C1 as stated fails: the local cluster \<open>c1\<close> has primary \<open>db1:3306\<close>, the reachable peer
  reports the same cluster up with primary \<open>db2:3306\<close>, and neither the peer's check nor the
  whole tick sets a split-brain flag.
\<close>

theorem different_primary_counterexample:
  "master (the (Clusters (example_repman ''p1'') ''c1'')) = ''db1:3306'' \<and>
   json_Unmarshal (env_reply (peer_heartbeat ''db2:3306'')) ''{}''
     = Inr (peer_heartbeat ''db2:3306'') \<and>
   hb_Cluster (peer_heartbeat ''db2:3306'') = ''c1'' \<and>
   hb_Master (peer_heartbeat ''db2:3306'') = ''db2:3306'' \<and>
   fst (HeartbeatPeerSplitBrain (env_reply (peer_heartbeat ''db2:3306'')) (example_repman ''p1'')
     ''p1'' False) = False \<and>
   SplitBrain (fst (Heartbeat (env_reply (peer_heartbeat ''db2:3306'')) ''cluster1''
     (example_repman ''p1''))) = False \<and>
   map_option IsSplitBrain (Clusters (fst (Heartbeat (env_reply (peer_heartbeat ''db2:3306''))
     ''cluster1'' (example_repman ''p1''))) ''c1'') = Some False"
  by (simp add: example_defs heartbeat_defs)

text \<open>
  C2, as the code has it. At each of the four failures of the peer call (request
  construction, transport, reading the body, decoding the JSON) \<open>HeartbeatPeerSplitBrain\<close>
  returns true. A tick that reaches the peer loop ends with the supervisor's flag and every
  cluster's flag true when the check of the last peer of the list returned true.
\<close>

theorem HeartbeatPeerSplitBrain_failure_modes:
  "(\<not> url_ok env (heartbeat_url peer) \<longrightarrow>
      HeartbeatPeerSplitBrain env repman peer bck = (True, []))
   \<and> (url_ok env (heartbeat_url peer) \<and>
        client_Do env \<lparr>Timeout = heartbeat_timeout (Conf repman)\<rparr>
          \<lparr>Method = ''GET'', URL = heartbeat_url peer\<rparr> = Inl e1 \<longrightarrow>
      fst (HeartbeatPeerSplitBrain env repman peer bck) = True)
   \<and> (url_ok env (heartbeat_url peer) \<and>
        client_Do env \<lparr>Timeout = heartbeat_timeout (Conf repman)\<rparr>
          \<lparr>Method = ''GET'', URL = heartbeat_url peer\<rparr> = Inr resp \<and>
        ioutil_ReadAll resp = Inl e2 \<longrightarrow>
      fst (HeartbeatPeerSplitBrain env repman peer bck) = True)
   \<and> (url_ok env (heartbeat_url peer) \<and>
        client_Do env \<lparr>Timeout = heartbeat_timeout (Conf repman)\<rparr>
          \<lparr>Method = ''GET'', URL = heartbeat_url peer\<rparr> = Inr resp \<and>
        ioutil_ReadAll resp = Inr monjson \<and>
        json_Unmarshal env monjson = Inl e3 \<longrightarrow>
      fst (HeartbeatPeerSplitBrain env repman peer bck) = True)
   \<and> (cfgGroup \<noteq> ''arbitrator'' \<and> ArbitrationPeerHosts (Conf repman) \<noteq> [] \<and>
        fst (HeartbeatPeerSplitBrain env repman
          (last (strings_Split (ArbitrationPeerHosts (Conf repman)) (CHR '','')))
          (SplitBrain repman)) = True \<longrightarrow>
      SplitBrain (fst (Heartbeat env cfgGroup repman)) = True \<and>
      (\<forall>k cl. Clusters (fst (Heartbeat env cfgGroup repman)) k = Some cl \<longrightarrow>
         IsSplitBrain cl = True))"
proof (intro conjI impI)
  assume a: "cfgGroup \<noteq> ''arbitrator'' \<and> ArbitrationPeerHosts (Conf repman) \<noteq> [] \<and>
        fst (HeartbeatPeerSplitBrain env repman
          (last (strings_Split (ArbitrationPeerHosts (Conf repman)) (CHR '','')))
          (SplitBrain repman)) = True"
  then have run: "fst (Heartbeat env cfgGroup repman) =
      repman\<lparr>SplitBrain := True,
        Clusters := (\<lambda>k. map_option (\<lambda>cl. cl\<lparr>IsSplitBrain := True\<rparr>) (Clusters repman k))\<rparr>"
    using Heartbeat_peers [of cfgGroup repman env] by (simp add: Let_def)
  show "SplitBrain (fst (Heartbeat env cfgGroup repman)) = True"
    by (simp add: run)
  show "\<forall>k cl. Clusters (fst (Heartbeat env cfgGroup repman)) k = Some cl \<longrightarrow>
         IsSplitBrain cl = True"
    by (auto simp: run)
qed (simp_all add: HeartbeatPeerSplitBrain_def http_NewRequest_def)

theorem HeartbeatPeerSplitBrain_failure_modes_witness:
  "HeartbeatPeerSplitBrain env_bad_url (example_repman ''p1'') ''p1'' False = (True, []) \<and>
   fst (HeartbeatPeerSplitBrain env_down (example_repman ''p1'') ''p1'' False) = True \<and>
   fst (HeartbeatPeerSplitBrain env_broken_body (example_repman ''p1'') ''p1'' False) = True \<and>
   fst (HeartbeatPeerSplitBrain env_bad_json (example_repman ''p1'') ''p1'' False) = True \<and>
   SplitBrain (fst (Heartbeat env_p1_down ''cluster1'' (example_repman ''p2,p1''))) = True \<and>
   map_option IsSplitBrain
     (Clusters (fst (Heartbeat env_p1_down ''cluster1'' (example_repman ''p2,p1''))) ''c1'')
     = Some True"
proof -
  have a: "HeartbeatPeerSplitBrain env_bad_url (example_repman ''p1'') ''p1'' False = (True, [])"
    using HeartbeatPeerSplitBrain_failure_modes
      [of env_bad_url "''p1''" "example_repman ''p1''" False]
    by (simp add: example_defs)
  have b: "fst (HeartbeatPeerSplitBrain env_down (example_repman ''p1'') ''p1'' False) = True"
    using HeartbeatPeerSplitBrain_failure_modes
      [of env_down "''p1''" "example_repman ''p1''" False TransportError]
    by (simp add: example_defs)
  have c: "fst (HeartbeatPeerSplitBrain env_broken_body (example_repman ''p1'') ''p1'' False)
      = True"
    using HeartbeatPeerSplitBrain_failure_modes
      [of env_broken_body "''p1''" "example_repman ''p1''" False _ "Response (Inl ReadError)"
          ReadError]
    by (simp add: example_defs)
  have d: "fst (HeartbeatPeerSplitBrain env_bad_json (example_repman ''p1'') ''p1'' False)
      = True"
    using HeartbeatPeerSplitBrain_failure_modes
      [of env_bad_json "''p1''" "example_repman ''p1''" False _ "Response (Inr ''{}'')"
          _ "''{}''" UnmarshalError]
    by (simp add: example_defs)
  have last: "last (strings_Split ''p2,p1'' (CHR '','')) = ''p1''"
    by simp
  have hosts: "ArbitrationPeerHosts (Conf (example_repman ''p2,p1'')) = ''p2,p1''"
    by (simp add: example_defs)
  have chk: "fst (HeartbeatPeerSplitBrain env_p1_down (example_repman ''p2,p1'') ''p1''
      (SplitBrain (example_repman ''p2,p1''))) = True"
    by (simp add: example_defs heartbeat_defs)
  have e: "SplitBrain (fst (Heartbeat env_p1_down ''cluster1'' (example_repman ''p2,p1''))) = True
      \<and> (\<forall>k cl. Clusters (fst (Heartbeat env_p1_down ''cluster1'' (example_repman ''p2,p1''))) k
            = Some cl \<longrightarrow> IsSplitBrain cl = True)"
    using HeartbeatPeerSplitBrain_failure_modes
      [of env_p1_down _ "example_repman ''p2,p1''" _ _ _ _ _ _ "''cluster1''"]
      chk
    by (simp only: hosts last) simp
  have dom: "Clusters (fst (Heartbeat env_p1_down ''cluster1'' (example_repman ''p2,p1''))) ''c1''
      \<noteq> None"
    by (simp add: example_defs heartbeat_defs)
  from e dom have f: "map_option IsSplitBrain
     (Clusters (fst (Heartbeat env_p1_down ''cluster1'' (example_repman ''p2,p1''))) ''c1'')
     = Some True"
    by auto
  from a b c d e f show ?thesis by simp
qed

text \<open>
  C2 as stated fails: with peers \<open>p1,p2\<close>, \<open>p1\<close> down and \<open>p2\<close> replying, the check of
  \<open>p1\<close> returns true and the tick still ends with the split-brain flags false.
\<close>

theorem earlier_peer_failure_counterexample:
  "fst (HeartbeatPeerSplitBrain env_p1_down (example_repman ''p1,p2'') ''p1'' False) = True \<and>
   SplitBrain (fst (Heartbeat env_p1_down ''cluster1'' (example_repman ''p1,p2''))) = False \<and>
   map_option IsSplitBrain
     (Clusters (fst (Heartbeat env_p1_down ''cluster1'' (example_repman ''p1,p2''))) ''c1'')
     = Some False"
  by (simp add: example_defs heartbeat_defs)

text \<open>
  C9, as the code has it. After a run of \<open>Heartbeat\<close> in a configuration group other than
  \<open>arbitrator\<close> and with a non-empty list of peer hosts, the supervisor's flag is the result
  of the check of the last peer of the list, every cluster's flag equals it, and the
  clusters are otherwise as they were. In the group \<open>arbitrator\<close> the run changes nothing.
\<close>

theorem Heartbeat_last_peer_wins:
  "(cfgGroup \<noteq> ''arbitrator'' \<and> ArbitrationPeerHosts (Conf repman) \<noteq> [] \<longrightarrow>
      SplitBrain (fst (Heartbeat env cfgGroup repman)) =
        fst (HeartbeatPeerSplitBrain env repman
          (last (strings_Split (ArbitrationPeerHosts (Conf repman)) (CHR '','')))
          (SplitBrain repman)) \<and>
      (\<forall>k. Clusters (fst (Heartbeat env cfgGroup repman)) k =
         map_option (\<lambda>cl. cl\<lparr>IsSplitBrain := SplitBrain (fst (Heartbeat env cfgGroup repman))\<rparr>)
           (Clusters repman k)))
   \<and> (cfgGroup = ''arbitrator'' \<longrightarrow> Heartbeat env cfgGroup repman = (repman, []))"
proof (intro conjI impI allI)
  assume a: "cfgGroup \<noteq> ''arbitrator'' \<and> ArbitrationPeerHosts (Conf repman) \<noteq> []"
  note run = Heartbeat_peers [of cfgGroup repman env]
  show "SplitBrain (fst (Heartbeat env cfgGroup repman)) =
        fst (HeartbeatPeerSplitBrain env repman
          (last (strings_Split (ArbitrationPeerHosts (Conf repman)) (CHR '','')))
          (SplitBrain repman))"
    using a run by (simp add: Let_def)
  fix k
  show "Clusters (fst (Heartbeat env cfgGroup repman)) k =
         map_option (\<lambda>cl. cl\<lparr>IsSplitBrain := SplitBrain (fst (Heartbeat env cfgGroup repman))\<rparr>)
           (Clusters repman k)"
    using a run by (simp add: Let_def)
next
  assume "cfgGroup = ''arbitrator''"
  then show "Heartbeat env cfgGroup repman = (repman, [])"
    by (simp add: Heartbeat_def)
qed

theorem Heartbeat_last_peer_wins_witness:
  "ArbitrationPeerHosts (Conf (example_repman ''p1,p2'')) \<noteq> [] \<and>
   last (strings_Split (ArbitrationPeerHosts (Conf (example_repman ''p1,p2''))) (CHR '','')) = ''p2'' \<and>
   SplitBrain (fst (Heartbeat env_p1_down ''cluster1'' (example_repman ''p1,p2''))) =
     fst (HeartbeatPeerSplitBrain env_p1_down (example_repman ''p1,p2'') ''p2'' False) \<and>
   Clusters (fst (Heartbeat env_p1_down ''cluster1'' (example_repman ''p1,p2''))) ''c1'' =
     Some \<lparr>Name = ''c1'', master = ''db1:3306'',
       IsSplitBrain = SplitBrain (fst (Heartbeat env_p1_down ''cluster1'' (example_repman ''p1,p2'')))\<rparr> \<and>
   Heartbeat env_p1_down ''arbitrator'' (example_repman ''p1,p2'') = (example_repman ''p1,p2'', [])"
proof -
  have hosts: "ArbitrationPeerHosts (Conf (example_repman ''p1,p2'')) = ''p1,p2''"
    and sb: "SplitBrain (example_repman ''p1,p2'') = False"
    and cl: "Clusters (example_repman ''p1,p2'') ''c1'' =
       Some \<lparr>Name = ''c1'', master = ''db1:3306'', IsSplitBrain = False\<rparr>"
    by (simp_all add: example_defs)
  have last: "last (strings_Split ''p1,p2'' (CHR '','')) = ''p2''"
    by simp
  show ?thesis
    using Heartbeat_last_peer_wins [of "''cluster1''" "example_repman ''p1,p2''" env_p1_down]
      Heartbeat_last_peer_wins [of "''arbitrator''" "example_repman ''p1,p2''" env_p1_down]
    by (simp add: hosts sb cl last)
qed

text \<open>
  C9 as stated fails in the configuration group \<open>arbitrator\<close>: the peer list is not empty,
  the check of its last peer gives true, and after \<open>Heartbeat\<close> the supervisor's flag is
  still false.
\<close>

theorem arbitrator_group_skips_peers_counterexample:
  "ArbitrationPeerHosts (Conf (example_repman ''p1'')) \<noteq> [] \<and>
   fst (HeartbeatPeerSplitBrain env_down (example_repman ''p1'')
     (last (strings_Split (ArbitrationPeerHosts (Conf (example_repman ''p1''))) (CHR '','')))
     (SplitBrain (example_repman ''p1''))) = True \<and>
   SplitBrain (fst (Heartbeat env_down ''arbitrator'' (example_repman ''p1''))) = False"
  by (simp add: example_defs heartbeat_defs)

text \<open>
  C10, as the code has it. With no peer hosts configured, \<open>Heartbeat\<close> issues no HTTP call
  and leaves the supervisor's flag and every cluster as they were; in a configuration group
  other than \<open>arbitrator\<close> it sets the arbitration flag of the configuration to false and
  changes nothing else, in the group \<open>arbitrator\<close> it changes nothing at all.
\<close>

theorem Heartbeat_no_peers:
  assumes "ArbitrationPeerHosts (Conf repman) = []"
  shows "snd (Heartbeat env cfgGroup repman) = [] \<and>
         SplitBrain (fst (Heartbeat env cfgGroup repman)) = SplitBrain repman \<and>
         Clusters (fst (Heartbeat env cfgGroup repman)) = Clusters repman \<and>
         fst (Heartbeat env cfgGroup repman) =
           (if cfgGroup = ''arbitrator'' then repman
            else repman\<lparr>Conf := (Conf repman)\<lparr>Arbitration := False\<rparr>\<rparr>)"
  using assms by (simp add: Heartbeat_def)

theorem Heartbeat_no_peers_witness:
  "ArbitrationPeerHosts (Conf (example_repman [])) = [] \<and>
   snd (Heartbeat env_down ''cluster1'' (example_repman [])) = [] \<and>
   SplitBrain (fst (Heartbeat env_down ''cluster1'' (example_repman []))) = False \<and>
   Arbitration (Conf (fst (Heartbeat env_down ''cluster1'' (example_repman [])))) = False \<and>
   Arbitration (Conf (example_repman [])) = True"
proof -
  have hosts: "ArbitrationPeerHosts (Conf (example_repman [])) = []"
    by (simp add: example_defs)
  from Heartbeat_no_peers [OF hosts, of env_down "''cluster1''"] hosts
  show ?thesis
    by (simp add: example_defs)
qed

text \<open>
  C10 as stated fails in the configuration group \<open>arbitrator\<close>: no peer hosts are
  configured and the arbitration flag is still true after \<open>Heartbeat\<close>.
\<close>

theorem arbitrator_group_keeps_arbitration_counterexample:
  "ArbitrationPeerHosts (Conf (example_repman [])) = [] \<and>
   Arbitration (Conf (fst (Heartbeat env_down ''arbitrator'' (example_repman [])))) = True"
  by (simp add: example_defs heartbeat_defs)



section \<open>Properties of the event codes\<close>

text \<open>
  C4, as the code has it. The table of event codes maps \<open>ERR00012\<close> to
  ``Could not find a master in topology'', \<open>ERR00027\<close> to ``Number of cluster failovers
  exceeded'', \<open>ERR00029\<close> to ``Time between failovers too short'', \<open>ERR00032\<close> to
  ``No candidates found in slaves list'', and holds \<open>WARN0079\<close>, ``Cluster is split
  brain''; it has 150 entries.
\<close>

theorem clusterError_codes:
  "clusterError ''ERR00012'' = Some ''Could not find a master in topology'' \<and>
   clusterError ''ERR00027'' = Some ''Number of cluster failovers exceeded'' \<and>
   clusterError ''ERR00029'' = Some ''Time between failovers too short'' \<and>
   clusterError ''ERR00032'' = Some ''No candidates found in slaves list'' \<and>
   clusterError ''WARN0079'' = Some ''Cluster is split brain'' \<and>
   length clusterError_entries = 150"
  by code_simp

text \<open>C4 as stated fails: the text of \<open>ERR00032\<close> is not ``No candidates found''.\<close>

theorem clusterError_ERR00032_counterexample:
  "clusterError ''ERR00032'' \<noteq> Some ''No candidates found''"
  by code_simp

section \<open>Properties of the served heartbeat\<close>

lemma Heartbeat_Status: "Status (fst (Heartbeat env cfgGroup repman)) = Status repman"
proof (cases "cfgGroup \<noteq> ''arbitrator'' \<and> ArbitrationPeerHosts (Conf repman) \<noteq> []")
  case True
  then show ?thesis
    using Heartbeat_peers [of cfgGroup repman env] by (simp add: Let_def)
next
  case False
  then show ?thesis
    by (auto simp: Heartbeat_def)
qed

lemma serving_Status:
  "serving cfgGroup repman \<Longrightarrow>
     Status repman = ConstMonitorActif \<or> Status repman = ConstMonitorStandby"
proof (induction rule: serving.induct)
  case (started uuid repman)
  then show ?case by (simp add: Run_start_def)
next
  case (ticked repman env)
  then show ?case by (simp add: Run_tick_def Heartbeat_Status)
next
  case (cluster_started repman name cl)
  then show ?case by simp
qed

text \<open>
  C8. Every reply that the heartbeat handler of a serving supervisor delivers is an object
  with exactly the members uuid, secret, cluster, master, id, status, hosts and failed, and
  its status is the string A or the string S; with a working response writer the handler
  does deliver a reply.
\<close>

theorem heartbeat_endpoint_reply:
  assumes "serving cfgGroup repman"
  shows "(handlerMuxMonitorHeartbeat writable repman = Inr reply \<longrightarrow>
            map fst (Payload reply) =
              [''uuid'', ''secret'', ''cluster'', ''master'', ''id'', ''status'', ''hosts'',
               ''failed''] \<and>
            (map_of (Payload reply) ''status'' = Some (JString ''A'') \<or>
             map_of (Payload reply) ''status'' = Some (JString ''S'')))
         \<and> (\<exists>r. handlerMuxMonitorHeartbeat True repman = Inr r)"
proof -
  from serving_Status [OF assms]
  have st: "Status repman = ''A'' \<or> Status repman = ''S''"
    by (simp add: ConstMonitorActif_def ConstMonitorStandby_def)
  then show ?thesis
    by (auto simp: handlerMuxMonitorHeartbeat_def json_Marshal_Heartbeat_def Let_def
        split: if_splits)
qed

theorem heartbeat_endpoint_reply_witness:
  "serving ''cluster1'' (Run_tick env_down ''cluster1'' (Run_start ''uuid-1'' (example_repman ''p1''))) \<and>
   handlerMuxMonitorHeartbeat True
       (Run_tick env_down ''cluster1'' (Run_start ''uuid-1'' (example_repman ''p1''))) =
     Inr \<lparr>ContentType = ''application/json; charset=UTF-8'',
          Payload = [(''uuid'', JString ''uuid-1''), (''secret'', JString ''secret''),
                     (''cluster'', JString []), (''master'', JString []), (''id'', JNumber 7),
                     (''status'', JString ''S''), (''hosts'', JNumber 0),
                     (''failed'', JNumber 0)]\<rparr> \<and>
   (map_of [(''uuid'', JString ''uuid-1''), (''secret'', JString ''secret''),
            (''cluster'', JString []), (''master'', JString []), (''id'', JNumber 7),
            (''status'', JString ''S''), (''hosts'', JNumber 0), (''failed'', JNumber 0)]
      ''status'' = Some (JString ''A'') \<or>
    map_of [(''uuid'', JString ''uuid-1''), (''secret'', JString ''secret''),
            (''cluster'', JString []), (''master'', JString []), (''id'', JNumber 7),
            (''status'', JString ''S''), (''hosts'', JNumber 0), (''failed'', JNumber 0)]
      ''status'' = Some (JString ''S''))"
proof -
  let ?r = "Run_tick env_down ''cluster1'' (Run_start ''uuid-1'' (example_repman ''p1''))"
  have s: "serving ''cluster1'' ?r"
    by (intro serving.ticked serving.started)
  have c: "Conf ?r = example_conf ''p1''" and u: "UUID ?r = ''uuid-1''"
    and st: "Status ?r = ''S''"
    by (simp_all add: Run_tick_def Run_start_def example_defs heartbeat_defs
        ConstMonitorStandby_def)
  have h: "handlerMuxMonitorHeartbeat True ?r =
     Inr \<lparr>ContentType = ''application/json; charset=UTF-8'',
          Payload = [(''uuid'', JString ''uuid-1''), (''secret'', JString ''secret''),
                     (''cluster'', JString []), (''master'', JString []), (''id'', JNumber 7),
                     (''status'', JString ''S''), (''hosts'', JNumber 0),
                     (''failed'', JNumber 0)]\<rparr>"
    by (simp add: handlerMuxMonitorHeartbeat_def json_Marshal_Heartbeat_def zero_Heartbeat_def
        c u st example_conf_def)
  from heartbeat_endpoint_reply [OF s, of True] h s show ?thesis
    by simp
qed

section \<open>Properties of the proxy refresh\<close>

text \<open>
  What one pass does to one proxy: a successful \<open>Refresh\<close> stores fail-count 0 and state
  running; a failing one leaves the stored fail-count as it was and sets the state to
  failed when the stored count plus one reaches \<open>MaxFail\<close>, to suspect below that.
\<close>

lemma refreshProxy_success:
  "Refresh pr = None \<Longrightarrow>
     FailCount (refreshProxy Refresh conf pr) = 0 \<and>
     State (refreshProxy Refresh conf pr) = stateProxyRunning"
  by (simp add: refreshProxy_def Let_def)

lemma refreshProxy_error:
  "Refresh pr = Some err \<Longrightarrow>
     FailCount (refreshProxy Refresh conf pr) = FailCount pr \<and>
     State (refreshProxy Refresh conf pr) =
       (if MaxFail conf \<le> FailCount pr + 1 then stateFailed else stateSuspect)"
  by (simp add: refreshProxy_def Let_def)

text \<open>
  Hence a proxy whose stored fail-count is 0 never becomes failed when \<open>MaxFail\<close> is more
  than one, however many passes fail in a row.
\<close>

lemma refresh_passes_stuck:
  assumes "1 < MaxFail conf" and "\<forall>pr \<in> set proxies. FailCount pr = 0"
    and "\<forall>Refresh \<in> set passes. \<forall>pr. Refresh pr \<noteq> None"
  shows "\<forall>pr \<in> set (refresh_passes passes conf proxies).
           FailCount pr = 0 \<and> (passes \<noteq> [] \<longrightarrow> State pr = stateSuspect)"
  using assms
proof (induction passes arbitrary: proxies)
  case Nil
  then show ?case by simp
next
  case (Cons Refresh rest)
  let ?next = "refreshProxies Refresh conf proxies"
  have step: "\<forall>pr \<in> set ?next. FailCount pr = 0 \<and> State pr = stateSuspect"
  proof
    fix q assume "q \<in> set ?next"
    then obtain pr where pr: "pr \<in> set proxies" and q: "q = refreshProxy Refresh conf pr"
      by (auto simp: refreshProxies_def)
    from Cons.prems(3) have "Refresh pr \<noteq> None"
      by simp
    then obtain err where e: "Refresh pr = Some err"
      by blast
    from refreshProxy_error [of Refresh pr err conf] e pr Cons.prems(1,2) q
    show "FailCount q = 0 \<and> State q = stateSuspect"
      by simp
  qed
  show ?case
  proof (cases rest)
    case Nil
    with step show ?thesis by simp
  next
    case (Cons a as)
    have "\<forall>pr \<in> set (refresh_passes rest conf ?next).
           FailCount pr = 0 \<and> (rest \<noteq> [] \<longrightarrow> State pr = stateSuspect)"
      using Cons.prems step by (intro Cons.IH) auto
    with Cons show ?thesis by simp
  qed
qed

text \<open>
  C3 fails on the code: with \<open>MaxFail = 3\<close>, a running proxy with fail-count 0 and three
  passes in a row whose \<open>Refresh\<close> fails, the stored fail-count is still 0 and the state is
  suspect, not failed.
\<close>

theorem refreshProxies_three_errors:
  "map FailCount (refresh_passes [Refresh_fails, Refresh_fails, Refresh_fails]
      \<lparr>MaxFail = 3, GraphiteMetrics = False\<rparr> [example_proxy]) = [0] \<and>
   map State (refresh_passes [Refresh_fails, Refresh_fails, Refresh_fails]
      \<lparr>MaxFail = 3, GraphiteMetrics = False\<rparr> [example_proxy]) = [stateSuspect] \<and>
   stateSuspect \<noteq> stateFailed"
  by (simp add: refreshProxies_def refreshProxy_def Refresh_fails_def example_proxy_def
      stateSuspect_def stateFailed_def stateProxyRunning_def)

section \<open>Properties of the configuration loader\<close>
































end
